theory Spec2Isabelle
  imports Main "HOL-Library.Sublist"
begin

section \<open>Platform objects\<close>

text \<open>
  The input helpers of \<^verbatim>\<open>src/utils/inputs.py\<close> work on objects of the chat platform's
  SDK. Each object is a record of the attributes the helpers read. Objects are compared
  by their identifiers, as the SDK does. A string is a list of characters with code
  points below 256; \<open>length\<close> is Python's \<^verbatim>\<open>len\<close> on it.
\<close>

record permissions =
  read_messages :: bool
  send_messages :: bool
  embed_links :: bool
  manage_channels :: bool
  add_reactions :: bool
  use_external_emojis :: bool
  manage_roles :: bool
  manage_messages :: bool
  administrator :: bool
  kick_members :: bool
  ban_members :: bool

text \<open>The SDK declares \<^verbatim>\<open>manage_permissions\<close> as an alias of \<^verbatim>\<open>manage_roles\<close>.\<close>

definition manage_permissions :: "permissions \<Rightarrow> bool" where
  "manage_permissions p = manage_roles p"

record channel =
  channel_id :: nat
  channel_mention :: string

record role =
  role_id :: nat
  role_mention :: string
  managed :: bool
  role_permissions :: permissions

record member =
  member_id :: nat
  top_role :: role

record attachment =
  content_type :: "string option"
  proxy_url :: string

record message =
  msg_id :: nat
  msg_channel :: nat
  msg_author :: nat
  content :: string
  attachments :: "attachment list"

text \<open>Every exception that can leave one of the helpers.\<close>

datatype exn =
  InputError string
  | ChannelNotFound string
  | RoleNotFound string
  | MemberNotFound string
  | InvalidURL string
  | ClientError string
  | KeyError string
  | ValueError
  | Forbidden
  | NotFound

text \<open>
  What \<^verbatim>\<open>ctx.bot.session.get(url)\<close> does: it returns a response, whose headers are a
  lookup from header name to value, or it raises.
\<close>

datatype fetch_outcome =
  Response "string \<Rightarrow> string option"
  | Raises exn

text \<open>
  The invocation context. Beside the attributes the helpers read (\<^verbatim>\<open>ctx.channel\<close>,
  \<^verbatim>\<open>ctx.author\<close>, \<^verbatim>\<open>ctx.me\<close>, \<^verbatim>\<open>ctx.guild.owner_id\<close>) it carries the SDK and
  library operations they call, which are not part of this repository:
  the three converters (\<open>None\<close> when the converter raises its not-found error),
  \<^verbatim>\<open>channel.permissions_for(ctx.me)\<close>, the order \<^verbatim>\<open>a > b\<close> on roles,
  \<^verbatim>\<open>ctx.bot.session.get\<close>, \<^verbatim>\<open>dateparser.parse\<close> (given the relative base), and
  whether the bot has the right to delete a message.
\<close>

record ctx =
  ctx_channel :: nat
  ctx_author :: member
  ctx_me :: member
  owner_id :: nat
  convert_channel :: "string \<Rightarrow> channel option"
  convert_role :: "string \<Rightarrow> role option"
  convert_member :: "string \<Rightarrow> member option"
  permissions_for_me :: "channel \<Rightarrow> permissions"
  role_gt :: "role \<Rightarrow> role \<Rightarrow> bool"
  session_get :: "string \<Rightarrow> fetch_outcome"
  dateparser_parse :: "int \<Rightarrow> string \<Rightarrow> int option"
  may_delete :: "message \<Rightarrow> bool"

text \<open>
  The part of the outside world the helpers change: the messages present in the
  transcript (by identifier) and the URLs fetched so far, latest first.
\<close>

record world =
  transcript :: "nat list"
  fetched :: "string list"

section \<open>Waiting for a message, deleting it\<close>

text \<open>
  \<^verbatim>\<open>ctx.bot.wait_for("message", check=check, timeout=timeout)\<close> resolves with the first
  message event that satisfies the check; \<open>events\<close> are the messages that arrive within
  the timeout, in order. \<open>None\<close> is \<^verbatim>\<open>asyncio.TimeoutError\<close>.
\<close>

definition wait_for :: "(message \<Rightarrow> bool) \<Rightarrow> message list \<Rightarrow> message option" where
  "wait_for check events = find check events"

text \<open>The default routing check: \<^verbatim>\<open>m.channel == ctx.channel or m.author == ctx.author\<close>.\<close>

definition default_check :: "ctx \<Rightarrow> message \<Rightarrow> bool" where
  "default_check c m = (msg_channel m = ctx_channel c \<or> msg_author m = member_id (ctx_author c))"

definition or_default :: "ctx \<Rightarrow> (message \<Rightarrow> bool) option \<Rightarrow> message \<Rightarrow> bool" where
  "or_default c check = (case check of None \<Rightarrow> default_check c | Some f \<Rightarrow> f)"

text \<open>\<^verbatim>\<open>message.delete()\<close>: forbidden without the right, not found when already gone.\<close>

definition message_delete :: "ctx \<Rightarrow> message \<Rightarrow> world \<Rightarrow> exn + world" where
  "message_delete c m w =
     (if \<not> may_delete c m then Inl Forbidden
      else if msg_id m \<notin> set (transcript w) then Inl NotFound
      else Inr (w\<lparr>transcript := removeAll (msg_id m) (transcript w)\<rparr>))"

definition safe_delete :: "ctx \<Rightarrow> message \<Rightarrow> world \<Rightarrow> bool \<times> world" where
  "safe_delete c m w =
     (case message_delete c m w of
        Inl e \<Rightarrow> (False, w)
      | Inr w' \<Rightarrow> (True, w'))"

definition delete_if :: "bool \<Rightarrow> ctx \<Rightarrow> message \<Rightarrow> world \<Rightarrow> world" where
  "delete_if delete_after c m w = (if delete_after then snd (safe_delete c m w) else w)"

section \<open>Python's string and integer primitives\<close>

text \<open>
  \<^verbatim>\<open>str.isspace\<close> on one character, for code points below 256: the ASCII white space,
  the four separators 28 to 31, NEL (133) and the no-break space (160).
\<close>

definition py_isspace :: "char \<Rightarrow> bool" where
  "py_isspace c = (of_char c \<in> set [9, 10, 11, 12, 13, 28, 29, 30, 31, 32, 133, 160 :: nat])"

definition py_strip :: "string \<Rightarrow> string" where
  "py_strip s = rev (dropWhile py_isspace (rev (dropWhile py_isspace s)))"

text \<open>
  \<^verbatim>\<open>str.lower\<close> on one character, for code points below 256: the letters A to Z and the
  Latin-1 capitals 192 to 222 (but the multiplication sign 215) move up by 32.
\<close>

definition py_lower_char :: "char \<Rightarrow> char" where
  "py_lower_char c =
     (let n = (of_char c :: nat) in
      if (65 \<le> n \<and> n \<le> 90) \<or> (192 \<le> n \<and> n \<le> 222 \<and> n \<noteq> 215)
      then char_of (n + 32) else c)"

definition py_lower :: "string \<Rightarrow> string" where
  "py_lower s = map py_lower_char s"

definition is_digit :: "char \<Rightarrow> bool" where
  "is_digit c = (48 \<le> (of_char c :: nat) \<and> (of_char c :: nat) \<le> 57)"

definition digit_val :: "char \<Rightarrow> nat" where
  "digit_val c = of_char c - 48"

definition digit_char :: "nat \<Rightarrow> char" where
  "digit_char n = char_of (48 + n)"

text \<open>\<^verbatim>\<open>str(n)\<close> for an integer: its decimal digits, after a minus sign when negative.\<close>

fun digits_of :: "nat \<Rightarrow> string" where
  "digits_of n = (if n < 10 then [digit_char n] else digits_of (n div 10) @ [digit_char (n mod 10)])"

declare digits_of.simps [simp del]

definition py_str :: "int \<Rightarrow> string" where
  "py_str i = (if i < 0 then CHR ''-'' # digits_of (nat (- i)) else digits_of (nat i))"

text \<open>
  The white space that \<^verbatim>\<open>int(s)\<close> skips around the number, for code points below 256:
  the ASCII white space, NEL (133) and the no-break space (160). Unlike
  \<^verbatim>\<open>str.isspace\<close> it does not take the separators 28 to 31: \<^verbatim>\<open>int('\x1f5')\<close> raises
  \<^verbatim>\<open>ValueError\<close>.
\<close>

definition py_int_isspace :: "char \<Rightarrow> bool" where
  "py_int_isspace c = (of_char c \<in> set [9, 10, 11, 12, 13, 32, 133, 160 :: nat])"

definition py_int_strip :: "string \<Rightarrow> string" where
  "py_int_strip s = rev (dropWhile py_int_isspace (rev (dropWhile py_int_isspace s)))"

text \<open>
  \<^verbatim>\<open>int(s)\<close> for a string: white space around is dropped, then an optional sign, then
  decimal digits, where one underscore may stand between two digits. \<open>None\<close> is
  \<^verbatim>\<open>ValueError\<close>. (The interpreter's limit on the number of digits is not modelled.)
\<close>

fun py_digits :: "nat \<Rightarrow> string \<Rightarrow> nat option" where
  "py_digits acc [] = Some acc"
| "py_digits acc (c # cs) =
     (if is_digit c then py_digits (acc * 10 + digit_val c) cs
      else if c = CHR ''_'' then
        (case cs of
           [] \<Rightarrow> None
         | d # ds \<Rightarrow> if is_digit d then py_digits acc cs else None)
      else None)"

definition py_unsigned :: "string \<Rightarrow> nat option" where
  "py_unsigned s =
     (case s of
        [] \<Rightarrow> None
      | c # cs \<Rightarrow> if is_digit c then py_digits 0 s else None)"

definition py_int :: "string \<Rightarrow> int option" where
  "py_int s =
     (case py_int_strip s of
        [] \<Rightarrow> None
      | c # cs \<Rightarrow>
          if c = CHR ''-'' then map_option (\<lambda>n. - int n) (py_unsigned cs)
          else if c = CHR ''+'' then map_option int (py_unsigned cs)
          else map_option int (py_unsigned (c # cs)))"

text \<open>Python's truth value of an optional integer: \<^verbatim>\<open>None\<close> and \<^verbatim>\<open>0\<close> are false.\<close>

definition truthy :: "int option \<Rightarrow> bool" where
  "truthy x = (case x of None \<Rightarrow> False | Some v \<Rightarrow> v \<noteq> 0)"

section \<open>integer_input\<close>

text \<open>
  The acceptance predicate \<^verbatim>\<open>new_check\<close> of \<^verbatim>\<open>integer_input\<close>, in the order of the source:
  the routing check, the length gate when \<^verbatim>\<open>limits[1] is not None\<close>, the parse, then
  \<^verbatim>\<open>not any(limits)\<close>, \<^verbatim>\<open>all(limits)\<close>, \<^verbatim>\<open>low is not None\<close> and the last return.
  The \<open>False\<close> of a \<open>None\<close> case under a guard that excludes \<open>None\<close> is never reached.
\<close>

definition new_check :: "(message \<Rightarrow> bool) \<Rightarrow> int option \<times> int option \<Rightarrow> message \<Rightarrow> bool" where
  "new_check check limits m =
     (if \<not> check m then False
      else if (case snd limits of
                 None \<Rightarrow> False
               | Some h \<Rightarrow> length (content m) > length (py_str h)) then False
      else
        (case py_int (content m) of
           None \<Rightarrow> False
         | Some digit \<Rightarrow>
             let low = fst limits; high = snd limits in
             if \<not> (truthy low \<or> truthy high) then True
             else if truthy low \<and> truthy high then
               (case (low, high) of
                  (Some l, Some h) \<Rightarrow> l \<le> digit \<and> digit \<le> h
                | _ \<Rightarrow> False)
             else if low \<noteq> None then
               (case low of Some l \<Rightarrow> l \<le> digit | None \<Rightarrow> False)
             else
               (case high of Some h \<Rightarrow> h \<le> digit | None \<Rightarrow> False)))"

text \<open>
  \<^verbatim>\<open>integer_input\<close>: wait with \<^verbatim>\<open>new_check\<close>; on timeout raise the input error;
  otherwise delete the message when asked and return \<^verbatim>\<open>int(message.content)\<close>.
\<close>

definition integer_input ::
  "ctx \<Rightarrow> (message \<Rightarrow> bool) option \<Rightarrow> int option \<times> int option \<Rightarrow> bool \<Rightarrow>
   message list \<Rightarrow> world \<Rightarrow> (exn + int) \<times> world" where
  "integer_input c check limits delete_after events w =
     (case wait_for (new_check (or_default c check) limits) events of
        None \<Rightarrow> (Inl (InputError ''You failed to select a number in time. Try again!''), w)
      | Some m \<Rightarrow>
          let w' = delete_if delete_after c m w in
          (case py_int (content m) of
             None \<Rightarrow> (Inl ValueError, w')
           | Some v \<Rightarrow> (Inr v, w')))"

section \<open>channel_input, role_input, member_input\<close>

definition base_perms_message :: "channel \<Rightarrow> string" where
  "base_perms_message ch =
     ''Please make sure I have the following perms in '' @ channel_mention ch @ '':'' @ [CHR 0x0A] @
     ''`read_messages`,`send_messages`,`embed_links`.''"

definition strict_perms_message :: "channel \<Rightarrow> string" where
  "strict_perms_message ch =
     ''Please make sure I have the following perms in '' @ channel_mention ch @ '':'' @ [CHR 0x0A] @
     ''- `add reactions`'' @ [CHR 0x0A] @ ''- `use external emojis`'' @ [CHR 0x0A] @
     ''- `manage channel`'' @ [CHR 0x0A] @ ''- `manage permissions`'' @ [CHR 0x0A] @
     ''- `manage messages`''"

text \<open>
  \<^verbatim>\<open>channel_input\<close>: wait, convert the content to a channel (the converter's error is
  not caught), check the three base permissions, then the five strict ones under
  \<^verbatim>\<open>check_perms\<close>, and only then delete the message when asked.
\<close>

definition channel_input ::
  "ctx \<Rightarrow> (message \<Rightarrow> bool) option \<Rightarrow> bool \<Rightarrow> bool \<Rightarrow> message list \<Rightarrow> world \<Rightarrow>
   (exn + channel) \<times> world" where
  "channel_input c check delete_after check_perms events w =
     (case wait_for (or_default c check) events of
        None \<Rightarrow> (Inl (InputError ''You failed to select a channel in time. Try again!''), w)
      | Some m \<Rightarrow>
          (case convert_channel c (content m) of
             None \<Rightarrow> (Inl (ChannelNotFound (content m)), w)
           | Some ch \<Rightarrow>
               let perms = permissions_for_me c ch in
               if \<not> (read_messages perms \<and> send_messages perms \<and> embed_links perms) then
                 (Inl (InputError (base_perms_message ch)), w)
               else if check_perms \<and>
                   \<not> (manage_channels perms \<and> add_reactions perms \<and> use_external_emojis perms \<and>
                      manage_permissions perms \<and> manage_messages perms) then
                 (Inl (InputError (strict_perms_message ch)), w)
               else (Inr ch, delete_if delete_after c m w)))"

definition above_my_top_role_message :: "role \<Rightarrow> role \<Rightarrow> string" where
  "above_my_top_role_message r mine =
     ''The position of '' @ role_mention r @
     '' is above my top role. So I can't give it to anyone.'' @ [CHR 0x0A] @
     ''Kindly move '' @ role_mention mine @ '' above '' @ role_mention r @ '' in Server Settings.''"

definition above_your_top_role_message :: "role \<Rightarrow> role \<Rightarrow> string" where
  "above_your_top_role_message r yours =
     ''The position of '' @ role_mention r @ '' is above your top role '' @ role_mention yours @ ''.''"

definition dangerous :: "permissions \<Rightarrow> bool" where
  "dangerous p =
     (administrator p \<or> manage_channels p \<or> manage_roles p \<or> kick_members p \<or> ban_members p)"

text \<open>
  \<^verbatim>\<open>role_input\<close>: wait, convert the content to a role (the converter's error is not
  caught), then in this order: the managed check, under \<^verbatim>\<open>hierarchy\<close> the comparison with
  the bot's top role and, unless the author owns the guild, with the author's top role,
  under \<^verbatim>\<open>check_perms\<close> the dangerous permissions, and only then the deletion.
\<close>

definition role_input ::
  "ctx \<Rightarrow> (message \<Rightarrow> bool) option \<Rightarrow> bool \<Rightarrow> bool \<Rightarrow> bool \<Rightarrow> message list \<Rightarrow> world \<Rightarrow>
   (exn + role) \<times> world" where
  "role_input c check hierarchy check_perms delete_after events w =
     (case wait_for (or_default c check) events of
        None \<Rightarrow> (Inl (InputError ''You failed to select a role in time. Try again!''), w)
      | Some m \<Rightarrow>
          (case convert_role c (content m) of
             None \<Rightarrow> (Inl (RoleNotFound (content m)), w)
           | Some r \<Rightarrow>
               if managed r then
                 (Inl (InputError ''Role is an integrated role and cannot be added manually.''), w)
               else if hierarchy \<and> role_gt c r (top_role (ctx_me c)) then
                 (Inl (InputError (above_my_top_role_message r (top_role (ctx_me c)))), w)
               else if hierarchy \<and> member_id (ctx_author c) \<noteq> owner_id c \<and>
                   role_gt c r (top_role (ctx_author c)) then
                 (Inl (InputError (above_your_top_role_message r (top_role (ctx_author c)))), w)
               else if check_perms \<and> dangerous (role_permissions r) then
                 (Inl (InputError (role_mention r @ '' has dangerous permissions.'')), w)
               else (Inr r, delete_if delete_after c m w)))"

definition member_input ::
  "ctx \<Rightarrow> (message \<Rightarrow> bool) \<Rightarrow> bool \<Rightarrow> message list \<Rightarrow> world \<Rightarrow> (exn + member) \<times> world" where
  "member_input c check delete_after events w =
     (case wait_for check events of
        None \<Rightarrow> (Inl (InputError ''You failed to mention a member in time. Try again!''), w)
      | Some m \<Rightarrow>
          (case convert_member c (content m) of
             None \<Rightarrow> (Inl (MemberNotFound (content m)), w)
           | Some mem \<Rightarrow> (Inr mem, delete_if delete_after c m w)))"

section \<open>time_input\<close>

text \<open>
  A timestamp is a number of microseconds, the resolution of \<^verbatim>\<open>datetime\<close>.
  \<open>now_base\<close> is the clock when the parser is called, \<open>now\<close> the clock at the comparison.
\<close>

definition timedelta_hours :: "int \<Rightarrow> int" where
  "timedelta_hours h = h * 60 * 60 * 1000000"

text \<open>
  \<^verbatim>\<open>time_input\<close>: wait, parse, delete the message when asked, then compare. When the
  parser returned \<^verbatim>\<open>None\<close> the comparison raises \<^verbatim>\<open>TypeError\<close>, which becomes the input
  error. A parsed time before \<open>now\<close> gets 24 hours added, once.
\<close>

definition time_input ::
  "ctx \<Rightarrow> (message \<Rightarrow> bool) \<Rightarrow> bool \<Rightarrow> int \<Rightarrow> int \<Rightarrow> message list \<Rightarrow> world \<Rightarrow>
   (exn + int) \<times> world" where
  "time_input c check delete_after now_base now events w =
     (case wait_for check events of
        None \<Rightarrow> (Inl (InputError ''Timeout, You have't responsed in time. Try again!''), w)
      | Some m \<Rightarrow>
          let parsed = dateparser_parse c now_base (content m);
              w' = delete_if delete_after c m w in
          (case parsed of
             None \<Rightarrow> (Inl (InputError ''This isn't valid time format.''), w')
           | Some t \<Rightarrow> (Inr (if now > t then t + timedelta_hours 24 else t), w')))"

section \<open>image_input\<close>

definition image_formats :: "string list" where
  "image_formats = [''image/png'', ''image/jpeg'', ''image/jpg'', ''image/gif'']"

text \<open>
  The URL branch of \<^verbatim>\<open>image_input\<close>: fetch the content as a URL under
  \<^verbatim>\<open>suppress(aiohttp.InvalidURL)\<close>, then read the \<^verbatim>\<open>content-type\<close> header. Only the
  invalid-URL error is suppressed; a missing header is a \<^verbatim>\<open>KeyError\<close>.
\<close>

definition url_validation :: "ctx \<Rightarrow> message \<Rightarrow> world \<Rightarrow> (exn + string option) \<times> world" where
  "url_validation c m w =
     (let w' = w\<lparr>fetched := content m # fetched w\<rparr> in
      case session_get c (content m) of
        Raises e \<Rightarrow>
          (case e of
             InvalidURL u \<Rightarrow> (Inr None, w')
           | _ \<Rightarrow> (Inl e, w'))
      | Response headers \<Rightarrow>
          (case headers ''content-type'' of
             None \<Rightarrow> (Inl (KeyError ''content-type''), w')
           | Some ct \<Rightarrow> (Inr (if ct \<in> set image_formats then Some (content m) else None), w')))"

text \<open>
  \<^verbatim>\<open>message.attachments and message.attachments[0].content_type in _image_formats\<close>:
  the access URL of the first attachment when its media type is an image format.
\<close>

definition attachment_image :: "message \<Rightarrow> string option" where
  "attachment_image m =
     (case attachments m of
        [] \<Rightarrow> None
      | a # as \<Rightarrow>
          (case content_type a of
             None \<Rightarrow> None
           | Some ct \<Rightarrow> if ct \<in> set image_formats then Some (proxy_url a) else None))"

text \<open>
  \<^verbatim>\<open>image_input\<close>: wait, delete the message when asked, then the literal \<^verbatim>\<open>none\<close>, then
  the first attachment, then the URL branch.
\<close>

definition image_input ::
  "ctx \<Rightarrow> (message \<Rightarrow> bool) \<Rightarrow> bool \<Rightarrow> message list \<Rightarrow> world \<Rightarrow>
   (exn + string option) \<times> world" where
  "image_input c check delete_after events w =
     (case wait_for check events of
        None \<Rightarrow> (Inl (InputError ''Took too long. Good Bye.''), w)
      | Some m \<Rightarrow>
          let w' = delete_if delete_after c m w in
          if py_lower (py_strip (content m)) = ''none'' then (Inr None, w')
          else
            (case attachment_image m of
               Some url \<Rightarrow> (Inr (Some url), w')
             | None \<Rightarrow> url_validation c m w'))"

section \<open>Sample objects\<close>

text \<open>
  A guild with one channel and a bot that has every channel permission but
  \<^verbatim>\<open>send_messages\<close>, used to run the helpers on concrete inputs.
\<close>

definition no_permissions :: permissions where
  "no_permissions =
     \<lparr>read_messages = False, send_messages = False, embed_links = False,
      manage_channels = False, add_reactions = False, use_external_emojis = False,
      manage_roles = False, manage_messages = False, administrator = False,
      kick_members = False, ban_members = False\<rparr>"

definition all_but_send :: permissions where
  "all_but_send =
     \<lparr>read_messages = True, send_messages = False, embed_links = True,
      manage_channels = True, add_reactions = True, use_external_emojis = True,
      manage_roles = True, manage_messages = True, administrator = False,
      kick_members = False, ban_members = False\<rparr>"

definition base_only :: permissions where
  "base_only =
     \<lparr>read_messages = True, send_messages = True, embed_links = True,
      manage_channels = False, add_reactions = True, use_external_emojis = True,
      manage_roles = True, manage_messages = True, administrator = False,
      kick_members = False, ban_members = False\<rparr>"

definition general :: channel where
  "general = \<lparr>channel_id = 7, channel_mention = ''<#7>''\<rparr>"

definition lobby :: channel where
  "lobby = \<lparr>channel_id = 8, channel_mention = ''<#8>''\<rparr>"

definition bot_role :: role where
  "bot_role = \<lparr>role_id = 20, role_mention = ''<@&20>'', managed = False,
     role_permissions = no_permissions\<rparr>"

definition mod_role :: role where
  "mod_role = \<lparr>role_id = 21, role_mention = ''<@&21>'', managed = False,
     role_permissions = no_permissions\<rparr>"

definition admin_role :: role where
  "admin_role = \<lparr>role_id = 22, role_mention = ''<@&22>'', managed = False,
     role_permissions = no_permissions\<lparr>administrator := True\<rparr>\<rparr>"

definition integration_role :: role where
  "integration_role = \<lparr>role_id = 23, role_mention = ''<@&23>'', managed = True,
     role_permissions = no_permissions\<lparr>administrator := True\<rparr>\<rparr>"

definition senior_role :: role where
  "senior_role = \<lparr>role_id = 24, role_mention = ''<@&24>'', managed = False,
     role_permissions = no_permissions\<lparr>kick_members := True\<rparr>\<rparr>"

definition moderator :: member where
  "moderator = \<lparr>member_id = 5, top_role = mod_role\<rparr>"

definition bot :: member where
  "bot = \<lparr>member_id = 6, top_role = bot_role\<rparr>"

text \<open>
  In the sample guild the administrator role outranks every other role and the senior
  role outranks the moderator role only; the fetch of any
  URL fails to connect; the parser reads the content as a number of microseconds.
\<close>

definition guild :: ctx where
  "guild =
     \<lparr>ctx_channel = 7, ctx_author = moderator, ctx_me = bot, owner_id = 1,
      convert_channel = (\<lambda>s. if s = ''<#7>'' then Some general
                             else if s = ''<#8>'' then Some lobby else None),
      convert_role = (\<lambda>s. if s = ''<@&22>'' then Some admin_role
                          else if s = ''<@&21>'' then Some mod_role
                          else if s = ''<@&23>'' then Some integration_role
                          else if s = ''<@&24>'' then Some senior_role else None),
      convert_member = (\<lambda>s. if s = ''<@5>'' then Some moderator else None),
      permissions_for_me = (\<lambda>ch. if channel_id ch = 7 then all_but_send else base_only),
      role_gt = (\<lambda>a b. (role_id a = 22 \<and> role_id b \<noteq> 22) \<or>
                         (role_id a = 24 \<and> role_id b = 21)),
      session_get = (\<lambda>url. Raises (if url = ''not a url'' then InvalidURL url
                                     else ClientError ''cannot connect'')),
      dateparser_parse = (\<lambda>base s. py_int s),
      may_delete = (\<lambda>m. True)\<rparr>"

definition said :: "string \<Rightarrow> message" where
  "said s = \<lparr>msg_id = 100, msg_channel = 7, msg_author = 5, content = s, attachments = []\<rparr>"

definition before :: world where
  "before = \<lparr>transcript = [99, 100], fetched = []\<rparr>"

section \<open>Facts about the wait and the deletion\<close>

lemma wait_for_Some: "wait_for check events = Some m \<Longrightarrow> check m \<and> m \<in> set events"
  by (auto simp: wait_for_def find_Some_iff)

lemma wait_for_None: "wait_for check events = None \<longleftrightarrow> list_all (\<lambda>m. \<not> check m) events"
  by (auto simp: wait_for_def find_None_iff list_all_iff)

lemma wait_for_skip: "\<not> check m \<Longrightarrow> wait_for check (m # events) = wait_for check events"
  by (simp add: wait_for_def)

lemma wait_for_first: "check m \<Longrightarrow> wait_for check (m # events) = Some m"
  by (simp add: wait_for_def)

lemma fetched_delete_if: "fetched (delete_if delete_after c m w) = fetched w"
  by (simp add: delete_if_def safe_delete_def message_delete_def split: sum.splits)

section \<open>Facts about the integer primitives\<close>

lemma py_int_strip_id:
  assumes "s \<noteq> []" and "\<not> py_int_isspace (hd s)" and "\<not> py_int_isspace (last s)"
  shows "py_int_strip s = s"
proof -
  have lead: "dropWhile py_int_isspace s = s"
    using assms by (simp add: dropWhile_eq_self_iff)
  have trail: "dropWhile py_int_isspace (rev s) = rev s"
    using assms by (simp add: dropWhile_eq_self_iff hd_rev)
  show ?thesis
    by (simp add: py_int_strip_def lead trail)
qed

lemma py_digits_zeros: "py_digits acc (replicate k (CHR ''0'')) = Some (acc * 10 ^ k)"
  by (induction k arbitrary: acc) (simp_all add: is_digit_def digit_val_def)

lemma py_int_one_zeros: "py_int (CHR ''1'' # replicate k (CHR ''0'')) = Some (10 ^ k)"
proof -
  have "py_int_strip (CHR ''1'' # replicate k (CHR ''0'')) = CHR ''1'' # replicate k (CHR ''0'')"
    by (rule py_int_strip_id) (simp_all add: py_int_isspace_def)
  then show ?thesis
    by (simp add: py_int_def py_unsigned_def is_digit_def digit_val_def py_digits_zeros)
qed

text \<open>A separator before the digits is not skipped, a no-break space is.\<close>

lemma py_int_separator:
  "py_int [CHR 0x1F, CHR ''5''] = None \<and> py_int [CHR 0xA0, CHR ''5'', CHR 0x0A] = Some 5"
  by (simp add: py_int_def py_int_strip_def py_int_isspace_def py_unsigned_def is_digit_def
      digit_val_def)

lemma less_ten_power: "k < (10::nat) ^ k"
  by (induction k) auto

section \<open>integer_input: the acceptance predicate\<close>

lemma new_check_parses:
  "new_check check limits m \<Longrightarrow> check m \<and> (\<exists>v. py_int (content m) = Some v)"
  by (auto simp: new_check_def split: if_splits option.splits)

lemma new_check_gate:
  "length (py_str h) < length (content m) \<Longrightarrow> \<not> new_check check (low, Some h) m"
  by (simp add: new_check_def)

lemma new_check_only_low:
  "new_check check (Some l, None) m =
     (check m \<and> (case py_int (content m) of None \<Rightarrow> False | Some v \<Rightarrow> l = 0 \<or> l \<le> v))"
  by (auto simp: new_check_def truthy_def Let_def split: option.splits)

lemma new_check_no_high:
  "new_check check (lo, None) m =
     (check m \<and>
      (case py_int (content m) of
         None \<Rightarrow> False
       | Some v \<Rightarrow> (case lo of None \<Rightarrow> True | Some l \<Rightarrow> l = 0 \<or> l \<le> v)))"
  by (auto simp: new_check_def truthy_def Let_def split: option.splits)

text \<open>With two bounds that are both non-zero, an accepted value lies between them.\<close>

lemma new_check_both_bounds:
  assumes "l \<noteq> 0" and "h \<noteq> 0" and "new_check check (Some l, Some h) m"
  shows "\<exists>v. py_int (content m) = Some v \<and> l \<le> v \<and> v \<le> h"
  using assms by (auto simp: new_check_def truthy_def Let_def split: if_splits option.splits)

text \<open>With no bound at all, every routed content that parses is accepted.\<close>

lemma new_check_no_bounds:
  "new_check check (None, None) m = (check m \<and> py_int (content m) \<noteq> None)"
  by (auto simp: new_check_def truthy_def Let_def split: option.splits)

text \<open>The call returns a value or raises the timeout error, and nothing else.\<close>

lemma integer_input_ok_or_timeout:
  "(\<exists>v. fst (integer_input c check limits delete_after events w) = Inr v) \<or>
   integer_input c check limits delete_after events w =
     (Inl (InputError ''You failed to select a number in time. Try again!''), w)"
proof (cases "wait_for (new_check (or_default c check) limits) events")
  case None
  then show ?thesis by (simp add: integer_input_def)
next
  case (Some m)
  then obtain v where "py_int (content m) = Some v"
    using wait_for_Some new_check_parses by blast
  with Some show ?thesis by (simp add: integer_input_def Let_def)
qed

text \<open>A message that the predicate rejects is skipped: the wait goes on with the next one.\<close>

lemma integer_input_skip:
  "\<not> new_check (or_default c check) limits m \<Longrightarrow>
   integer_input c check limits delete_after (m # events) w =
   integer_input c check limits delete_after events w"
  by (simp add: integer_input_def wait_for_skip)

text \<open>
  Claim C1. The claim: the acceptance predicate of an integer request enforces the declared
  bounds, \<open>low \<le> value \<le> high\<close> with both, the one-sided inequality with one. The code
  tests the bounds for truth, so a bound of 0 counts as absent, and with only \<open>high\<close> it
  returns \<open>high \<le> digit\<close>. Under the limits \<open>(0, 10)\<close> the content \<open>50\<close> is accepted,
  and under \<open>(None, 10)\<close> the content \<open>11\<close> is accepted while \<open>5\<close> is not.
\<close>

theorem C1_bounds_not_enforced:
  "new_check (or_default guild None) (Some 0, Some 10) (said ''50'') \<and>
   py_int (content (said ''50'')) = Some 50 \<and>
   new_check (or_default guild None) (None, Some 10) (said ''11'') \<and>
   \<not> new_check (or_default guild None) (None, Some 10) (said ''5'')"
  by (simp add: new_check_def or_default_def default_check_def guild_def said_def moderator_def
      py_str_def digits_of.simps digit_char_def py_int_def py_int_strip_def py_int_isspace_def
      py_unsigned_def is_digit_def digit_val_def truthy_def)

text \<open>
  Claim C2. When an upper bound \<open>h\<close> is declared, whatever the lower bound, a message
  whose content is longer than \<^verbatim>\<open>str(h)\<close> is rejected by the predicate and so never
  resolves the wait; a wait that only sees such messages ends in the timeout error.
  When no upper bound is declared (only \<open>low\<close>, or no bound) there is no gate on the
  length: two messages whose contents parse alike get the same verdict whatever their
  lengths, and there are accepted contents longer than any given length.
\<close>

theorem C2_length_gate:
  "(length (py_str h) < length (content m) \<longrightarrow>
      \<not> new_check check (low, Some h) m \<and>
      wait_for (new_check check (low, Some h)) events \<noteq> Some m) \<and>
   (list_all (\<lambda>e. length (py_str h) < length (content e)) events \<longrightarrow>
      integer_input c chk (low, Some h) delete_after events w =
        (Inl (InputError ''You failed to select a number in time. Try again!''), w)) \<and>
   (check a = check b \<and> py_int (content a) = py_int (content b) \<longrightarrow>
      new_check check (lo, None) a = new_check check (lo, None) b) \<and>
   ((\<forall>s. check (r\<lparr>content := s\<rparr>)) \<longrightarrow>
      (\<exists>s. n < length s \<and> new_check check (lo, None) (r\<lparr>content := s\<rparr>)))"
proof (intro conjI impI)
  assume long: "length (py_str h) < length (content m)"
  then show "\<not> new_check check (low, Some h) m"
    by (rule new_check_gate)
  then show "wait_for (new_check check (low, Some h)) events \<noteq> Some m"
    using wait_for_Some by blast
next
  assume "list_all (\<lambda>e. length (py_str h) < length (content e)) events"
  then have "list_all (\<lambda>e. \<not> new_check (or_default c chk) (low, Some h) e) events"
    by (simp add: list_all_iff new_check_gate)
  then have "wait_for (new_check (or_default c chk) (low, Some h)) events = None"
    by (simp add: wait_for_None)
  then show "integer_input c chk (low, Some h) delete_after events w =
      (Inl (InputError ''You failed to select a number in time. Try again!''), w)"
    by (simp add: integer_input_def)
next
  assume "check a = check b \<and> py_int (content a) = py_int (content b)"
  then show "new_check check (lo, None) a = new_check check (lo, None) b"
    by (simp add: new_check_no_high)
next
  assume routed: "\<forall>s. check (r\<lparr>content := s\<rparr>)"
  define least where "least = (case lo of None \<Rightarrow> 0 | Some l \<Rightarrow> l)"
  define k where "k = max n (nat least)"
  have "least \<le> int k"
    by (simp add: k_def)
  also have "int k < 10 ^ k"
    using less_ten_power [of k] by (metis of_nat_less_iff of_nat_power of_nat_numeral)
  finally have "least \<le> 10 ^ k"
    by simp
  then have "new_check check (lo, None) (r\<lparr>content := CHR ''1'' # replicate k (CHR ''0'')\<rparr>)"
    using routed by (simp add: new_check_no_high py_int_one_zeros least_def split: option.splits)
  moreover have "n < length (CHR ''1'' # replicate k (CHR ''0''))"
    by (simp add: k_def)
  ultimately show "\<exists>s. n < length s \<and> new_check check (lo, None) (r\<lparr>content := s\<rparr>)"
    by blast
qed

theorem C2_length_gate_witness:
  "length (py_str 10) < length (content (said ''100'')) \<and>
   \<not> new_check (default_check guild) (Some 1, Some 10) (said ''100'') \<and>
   wait_for (new_check (default_check guild) (Some 1, Some 10)) [said ''100''] \<noteq> Some (said ''100'') \<and>
   list_all (\<lambda>e. length (py_str 10) < length (content e)) [said ''100''] \<and>
   integer_input guild None (Some 1, Some 10) True [said ''100''] before =
     (Inl (InputError ''You failed to select a number in time. Try again!''), before) \<and>
   default_check guild (said ''7'') = default_check guild (said '' 007'') \<and>
   py_int (content (said ''7'')) = py_int (content (said '' 007'')) \<and>
   new_check (default_check guild) (Some 1, None) (said ''7'') =
     new_check (default_check guild) (Some 1, None) (said '' 007'') \<and>
   (\<forall>s. default_check guild (said ''7''\<lparr>content := s\<rparr>)) \<and>
   (\<exists>s. 5 < length s \<and> new_check (default_check guild) (Some 1, None) (said ''7''\<lparr>content := s\<rparr>))"
  using C2_length_gate [of 10 "said ''100''" "default_check guild" "Some 1" "[said ''100'']"
      guild None True before "said ''7''" "said '' 007''" "Some 1" "said ''7''" 5]
  by (simp add: default_check_def guild_def said_def moderator_def
      py_str_def digits_of.simps digit_char_def py_int_def py_int_strip_def py_int_isspace_def
      py_unsigned_def is_digit_def digit_val_def)

text \<open>
  Claim C3. The claim: an integer request ends in a value or in the timeout, and a
  routed message that violates the bounds is skipped. The first half holds
  (\<open>integer_input_ok_or_timeout\<close>, \<open>integer_input_skip\<close>); the second fails with the
  bounds of claim C1: under the limits \<open>(0, 10)\<close> the message \<open>50\<close> is not skipped, it
  resolves the wait, is deleted and 50 is returned.
\<close>

theorem C3_out_of_bounds_resolves:
  "integer_input guild None (Some 0, Some 10) True [said ''50''] before =
     (Inr 50, \<lparr>transcript = [99], fetched = []\<rparr>)"
  by (simp add: integer_input_def wait_for_def new_check_def or_default_def default_check_def
      guild_def said_def moderator_def py_str_def digits_of.simps digit_char_def py_int_def
      py_int_strip_def py_int_isspace_def py_unsigned_def is_digit_def digit_val_def truthy_def
      delete_if_def safe_delete_def message_delete_def before_def)

section \<open>channel_input and member_input: unresolvable content\<close>

text \<open>
  Claim C4. When the message that resolves the wait has a content that the channel
  converter (for \<^verbatim>\<open>member_input\<close>, the member converter) cannot resolve, the call
  fails: the converter's not-found error, which carries the content, leaves the helper,
  since nothing catches it. It is a failure that is neither a value nor the timeout
  error, and nothing is deleted.
\<close>

theorem C4_unresolvable_token:
  "(wait_for (or_default c check) events = Some m \<and> convert_channel c (content m) = None \<longrightarrow>
      channel_input c check delete_after check_perms events w =
        (Inl (ChannelNotFound (content m)), w)) \<and>
   (wait_for check' events' = Some m' \<and> convert_member c (content m') = None \<longrightarrow>
      member_input c check' delete_after events' w = (Inl (MemberNotFound (content m')), w))"
  by (simp add: channel_input_def member_input_def)

theorem C4_unresolvable_token_witness:
  "wait_for (or_default guild None) [said ''hello''] = Some (said ''hello'') \<and>
   convert_channel guild (content (said ''hello'')) = None \<and>
   channel_input guild None True True [said ''hello''] before =
     (Inl (ChannelNotFound ''hello''), before) \<and>
   wait_for (default_check guild) [said ''hello''] = Some (said ''hello'') \<and>
   convert_member guild (content (said ''hello'')) = None \<and>
   member_input guild (default_check guild) True [said ''hello''] before =
     (Inl (MemberNotFound ''hello''), before)"
  using C4_unresolvable_token [of guild None "[said ''hello'']" "said ''hello''" True True before
      "default_check guild" "[said ''hello'']" "said ''hello''"]
  by (simp add: wait_for_def or_default_def default_check_def guild_def said_def moderator_def)

section \<open>role_input: the order of the checks\<close>

text \<open>
  Claim C5, as amended. With the permission check on, a resolved role that carries one
  of the five dangerous permissions is always rejected with an input error and the
  message is not deleted. The reason is the dangerous permissions when the role is not
  managed and, under the hierarchy check, is neither above the bot's top role nor (unless
  the author owns the guild) above the author's top role; otherwise the earlier check
  gives the reason: a managed role gets the reason of the managed check; under the
  hierarchy check a role above the bot's top role gets the reason of that comparison,
  and a role not above it but above the top role of an author who does not own the guild
  gets the reason of the comparison with the author's top role.
\<close>

theorem C5_dangerous_role_rejected:
  "wait_for (or_default c check) events = Some m \<and> convert_role c (content m) = Some r \<and>
   dangerous (role_permissions r) \<longrightarrow>
     (\<exists>reason. role_input c check hierarchy True delete_after events w =
        (Inl (InputError reason), w)) \<and>
     (\<not> managed r \<and>
      (hierarchy \<longrightarrow>
         \<not> role_gt c r (top_role (ctx_me c)) \<and>
         (member_id (ctx_author c) = owner_id c \<or> \<not> role_gt c r (top_role (ctx_author c)))) \<longrightarrow>
        role_input c check hierarchy True delete_after events w =
          (Inl (InputError (role_mention r @ '' has dangerous permissions.'')), w)) \<and>
     (managed r \<longrightarrow>
        role_input c check hierarchy True delete_after events w =
          (Inl (InputError ''Role is an integrated role and cannot be added manually.''), w)) \<and>
     (\<not> managed r \<and> hierarchy \<and> role_gt c r (top_role (ctx_me c)) \<longrightarrow>
        role_input c check hierarchy True delete_after events w =
          (Inl (InputError (above_my_top_role_message r (top_role (ctx_me c)))), w)) \<and>
     (\<not> managed r \<and> hierarchy \<and> \<not> role_gt c r (top_role (ctx_me c)) \<and>
      member_id (ctx_author c) \<noteq> owner_id c \<and> role_gt c r (top_role (ctx_author c)) \<longrightarrow>
        role_input c check hierarchy True delete_after events w =
          (Inl (InputError (above_your_top_role_message r (top_role (ctx_author c)))), w))"
  by (auto simp: role_input_def)

theorem C5_dangerous_role_rejected_witness:
  "wait_for (or_default (guild\<lparr>role_gt := \<lambda>a b. False\<rparr>) None) [said ''<@&22>''] = Some (said ''<@&22>'') \<and>
   convert_role (guild\<lparr>role_gt := \<lambda>a b. False\<rparr>) (content (said ''<@&22>'')) = Some admin_role \<and>
   dangerous (role_permissions admin_role) \<and>
   \<not> managed admin_role \<and>
   \<not> role_gt (guild\<lparr>role_gt := \<lambda>a b. False\<rparr>) admin_role (top_role (ctx_me (guild\<lparr>role_gt := \<lambda>a b. False\<rparr>))) \<and>
   \<not> role_gt (guild\<lparr>role_gt := \<lambda>a b. False\<rparr>) admin_role (top_role (ctx_author (guild\<lparr>role_gt := \<lambda>a b. False\<rparr>))) \<and>
   role_input (guild\<lparr>role_gt := \<lambda>a b. False\<rparr>) None True True True [said ''<@&22>''] before =
     (Inl (InputError ''<@&22> has dangerous permissions.''), before) \<and>
   wait_for (or_default guild None) [said ''<@&23>''] = Some (said ''<@&23>'') \<and>
   convert_role guild (content (said ''<@&23>'')) = Some integration_role \<and>
   dangerous (role_permissions integration_role) \<and>
   managed integration_role \<and>
   role_input guild None True True True [said ''<@&23>''] before =
     (Inl (InputError ''Role is an integrated role and cannot be added manually.''), before) \<and>
   wait_for (or_default guild None) [said ''<@&22>''] = Some (said ''<@&22>'') \<and>
   convert_role guild (content (said ''<@&22>'')) = Some admin_role \<and>
   role_gt guild admin_role (top_role (ctx_me guild)) \<and>
   role_input guild None True True False [said ''<@&22>''] before =
     (Inl (InputError (above_my_top_role_message admin_role bot_role)), before) \<and>
   wait_for (or_default guild None) [said ''<@&24>''] = Some (said ''<@&24>'') \<and>
   convert_role guild (content (said ''<@&24>'')) = Some senior_role \<and>
   dangerous (role_permissions senior_role) \<and>
   \<not> managed senior_role \<and>
   \<not> role_gt guild senior_role (top_role (ctx_me guild)) \<and>
   member_id (ctx_author guild) \<noteq> owner_id guild \<and>
   role_gt guild senior_role (top_role (ctx_author guild)) \<and>
   role_input guild None True True True [said ''<@&24>''] before =
     (Inl (InputError (above_your_top_role_message senior_role mod_role)), before)"
  using C5_dangerous_role_rejected [of "guild\<lparr>role_gt := \<lambda>a b. False\<rparr>" None "[said ''<@&22>'']"
      "said ''<@&22>''" admin_role True True before]
    C5_dangerous_role_rejected [of guild None "[said ''<@&23>'']" "said ''<@&23>''"
      integration_role True True before]
    C5_dangerous_role_rejected [of guild None "[said ''<@&22>'']" "said ''<@&22>''"
      admin_role True False before]
    C5_dangerous_role_rejected [of guild None "[said ''<@&24>'']" "said ''<@&24>''"
      senior_role True True before]
  by (simp add: wait_for_def or_default_def default_check_def guild_def said_def
      moderator_def bot_def admin_role_def integration_role_def senior_role_def mod_role_def
      bot_role_def dangerous_def no_permissions_def)

text \<open>
  Claim C5 as stated promises the dangerous-permissions reason whatever the position of
  the role. The hierarchy check runs first: an administrator role above the bot's top
  role is rejected with the reason of the hierarchy check.
\<close>

theorem C5_hierarchy_first_counterexample:
  "dangerous (role_permissions admin_role) \<and>
   role_input guild None True True True [said ''<@&22>''] before =
     (Inl (InputError (above_my_top_role_message admin_role bot_role)), before) \<and>
   above_my_top_role_message admin_role bot_role \<noteq>
     role_mention admin_role @ '' has dangerous permissions.''"
  by (simp add: role_input_def wait_for_def or_default_def default_check_def guild_def said_def
      moderator_def bot_def admin_role_def bot_role_def dangerous_def no_permissions_def
      above_my_top_role_message_def)

section \<open>image_input: errors of the fetch\<close>

lemma url_validation_cases:
  "(\<exists>v. fst (url_validation c m w) = Inr v) \<or>
   (\<exists>e. session_get c (content m) = Raises e \<and> fst (url_validation c m w) = Inl e) \<or>
   fst (url_validation c m w) = Inl (KeyError ''content-type'')"
  by (auto simp: url_validation_def Let_def split: fetch_outcome.splits exn.splits option.splits)

text \<open>
  Claim C6, as amended. In the URL branch (the content is not \<^verbatim>\<open>none\<close> and the first
  attachment is no image) an invalid-URL error of the fetch is swallowed and the call
  returns \<^verbatim>\<open>None\<close>; any other error of the fetch leaves the helper unchanged. So a call
  ends in a returned value, in the timeout error, in an error the fetch raised, or in the
  \<^verbatim>\<open>KeyError\<close> of a response without the header; it never raises another input error.
\<close>

theorem C6_fetch_errors:
  "(wait_for check events = Some m \<and> py_lower (py_strip (content m)) \<noteq> ''none'' \<and>
    attachment_image m = None \<longrightarrow>
      (session_get c (content m) = Raises (InvalidURL u) \<longrightarrow>
         fst (image_input c check delete_after events w) = Inr None) \<and>
      (session_get c (content m) = Raises e \<and> (\<forall>u. e \<noteq> InvalidURL u) \<longrightarrow>
         fst (image_input c check delete_after events w) = Inl e)) \<and>
   ((\<exists>v. fst (image_input c check delete_after events w) = Inr v) \<or>
    image_input c check delete_after events w = (Inl (InputError ''Took too long. Good Bye.''), w) \<or>
    (\<exists>m e. wait_for check events = Some m \<and> session_get c (content m) = Raises e \<and>
       fst (image_input c check delete_after events w) = Inl e) \<or>
    fst (image_input c check delete_after events w) = Inl (KeyError ''content-type''))"
proof (intro conjI impI)
  assume a: "wait_for check events = Some m \<and> py_lower (py_strip (content m)) \<noteq> ''none'' \<and>
    attachment_image m = None"
  assume "session_get c (content m) = Raises (InvalidURL u)"
  with a show "fst (image_input c check delete_after events w) = Inr None"
    by (simp add: image_input_def url_validation_def Let_def)
next
  assume a: "wait_for check events = Some m \<and> py_lower (py_strip (content m)) \<noteq> ''none'' \<and>
    attachment_image m = None"
  assume "session_get c (content m) = Raises e \<and> (\<forall>u. e \<noteq> InvalidURL u)"
  with a show "fst (image_input c check delete_after events w) = Inl e"
    by (cases e) (simp_all add: image_input_def url_validation_def Let_def)
next
  show "(\<exists>v. fst (image_input c check delete_after events w) = Inr v) \<or>
    image_input c check delete_after events w = (Inl (InputError ''Took too long. Good Bye.''), w) \<or>
    (\<exists>m e. wait_for check events = Some m \<and> session_get c (content m) = Raises e \<and>
       fst (image_input c check delete_after events w) = Inl e) \<or>
    fst (image_input c check delete_after events w) = Inl (KeyError ''content-type'')"
  proof (cases "wait_for check events")
    case None
    then show ?thesis by (simp add: image_input_def)
  next
    case (Some m)
    show ?thesis
      using url_validation_cases [of c m "delete_if delete_after c m w"] Some
      by (auto simp: image_input_def Let_def split: option.splits)
  qed
qed

theorem C6_fetch_errors_witness:
  "wait_for (default_check guild) [said ''not a url''] = Some (said ''not a url'') \<and>
   py_lower (py_strip (content (said ''not a url''))) \<noteq> ''none'' \<and>
   attachment_image (said ''not a url'') = None \<and>
   session_get guild (content (said ''not a url'')) = Raises (InvalidURL ''not a url'') \<and>
   fst (image_input guild (default_check guild) True [said ''not a url''] before) = Inr None \<and>
   wait_for (default_check guild) [said ''http://a.invalid''] = Some (said ''http://a.invalid'') \<and>
   py_lower (py_strip (content (said ''http://a.invalid''))) \<noteq> ''none'' \<and>
   attachment_image (said ''http://a.invalid'') = None \<and>
   session_get guild (content (said ''http://a.invalid'')) = Raises (ClientError ''cannot connect'') \<and>
   (\<forall>u. ClientError ''cannot connect'' \<noteq> InvalidURL u) \<and>
   fst (image_input guild (default_check guild) True [said ''http://a.invalid''] before) =
     Inl (ClientError ''cannot connect'')"
  using C6_fetch_errors [of "default_check guild" "[said ''not a url'']" "said ''not a url''"
      guild "''not a url''" True before]
    C6_fetch_errors [of "default_check guild" "[said ''http://a.invalid'']" "said ''http://a.invalid''"
      guild _ True before "ClientError ''cannot connect''"]
  by (simp add: wait_for_def default_check_def guild_def said_def moderator_def
      py_lower_def py_strip_def py_isspace_def py_lower_char_def attachment_image_def)

text \<open>
  Claim C6 as stated has every transport error swallowed. Only \<^verbatim>\<open>aiohttp.InvalidURL\<close>
  is suppressed: a fetch that cannot connect raises its error to the caller.
\<close>

theorem C6_transport_error_counterexample:
  "image_input guild (default_check guild) False [said ''http://example.invalid/a.png''] before =
     (Inl (ClientError ''cannot connect''),
      \<lparr>transcript = [99, 100], fetched = [''http://example.invalid/a.png'']\<rparr>)"
  by (simp add: image_input_def wait_for_def default_check_def guild_def said_def moderator_def
      delete_if_def py_lower_def py_strip_def py_isspace_def py_lower_char_def
      attachment_image_def url_validation_def before_def)

section \<open>time_input: the roll forward\<close>

text \<open>
  Claim C7, as amended. For the message that resolves the wait: a parsed time before
  \<open>now\<close> is returned with exactly 24 hours added, and that result lies in the future
  exactly when the parsed time is less than 24 hours old; a parsed time not before
  \<open>now\<close> is returned unchanged; when the parser yields nothing the call fails with the
  input error about the time format.
\<close>

theorem C7_roll_forward:
  "wait_for check events = Some m \<longrightarrow>
     (dateparser_parse c now_base (content m) = Some t \<and> t < now \<longrightarrow>
        fst (time_input c check delete_after now_base now events w) = Inr (t + timedelta_hours 24) \<and>
        (now < t + timedelta_hours 24 \<longleftrightarrow> now - timedelta_hours 24 < t)) \<and>
     (dateparser_parse c now_base (content m) = Some t \<and> \<not> t < now \<longrightarrow>
        fst (time_input c check delete_after now_base now events w) = Inr t) \<and>
     (dateparser_parse c now_base (content m) = None \<longrightarrow>
        fst (time_input c check delete_after now_base now events w) =
          Inl (InputError ''This isn't valid time format.''))"
  by (auto simp: time_input_def Let_def)

theorem C7_roll_forward_witness:
  "wait_for (default_check guild) [said ''50''] = Some (said ''50'') \<and>
   dateparser_parse guild 0 (content (said ''50'')) = Some 50 \<and>
   (50::int) < 60 \<and>
   fst (time_input guild (default_check guild) True 0 60 [said ''50''] before) =
     Inr (50 + timedelta_hours 24) \<and>
   60 < 50 + timedelta_hours 24 \<and>
   \<not> (50::int) < 40 \<and>
   fst (time_input guild (default_check guild) True 0 40 [said ''50''] before) = Inr 50 \<and>
   wait_for (default_check guild) [said ''soon''] = Some (said ''soon'') \<and>
   dateparser_parse guild 0 (content (said ''soon'')) = None \<and>
   fst (time_input guild (default_check guild) True 0 40 [said ''soon''] before) =
     Inl (InputError ''This isn't valid time format.'')"
  using C7_roll_forward [of "default_check guild" "[said ''50'']" "said ''50''" guild 0 50 60 True before]
    C7_roll_forward [of "default_check guild" "[said ''50'']" "said ''50''" guild 0 50 40 True before]
    C7_roll_forward [of "default_check guild" "[said ''soon'']" "said ''soon''" guild 0 50 40 True before]
  by (simp add: wait_for_def default_check_def guild_def said_def moderator_def
      timedelta_hours_def py_int_def py_int_strip_def py_int_isspace_def
      py_unsigned_def is_digit_def digit_val_def)

text \<open>
  Claim C7 as stated has the rolled time in the future. The code adds 24 hours once: a
  parsed time three days old comes back two days old.
\<close>

theorem C7_not_in_future_counterexample:
  "time_input guild (default_check guild) False 0 (timedelta_hours 72) [said ''0''] before =
     (Inr (timedelta_hours 24), before) \<and>
   dateparser_parse guild 0 (content (said ''0'')) = Some 0 \<and>
   0 < timedelta_hours 72 \<and>
   \<not> timedelta_hours 72 < timedelta_hours 24"
  by (simp add: time_input_def wait_for_def default_check_def guild_def said_def moderator_def
      delete_if_def timedelta_hours_def py_int_def py_int_strip_def py_int_isspace_def
      py_unsigned_def is_digit_def digit_val_def)

section \<open>channel_input: the permission checks\<close>

lemma base_perms_message_names:
  "sublist ''`read_messages`'' (base_perms_message ch) \<and>
   sublist ''`send_messages`'' (base_perms_message ch) \<and>
   sublist ''`embed_links`'' (base_perms_message ch)"
proof -
  let ?head = "''Please make sure I have the following perms in '' @ channel_mention ch @ '':'' @ [CHR 0x0A]"
  have 1: "base_perms_message ch = ?head @ ''`read_messages`'' @ '',`send_messages`,`embed_links`.''"
    by (simp add: base_perms_message_def)
  have 2: "base_perms_message ch = (?head @ ''`read_messages`,'') @ ''`send_messages`'' @ '',`embed_links`.''"
    by (simp add: base_perms_message_def)
  have 3: "base_perms_message ch = (?head @ ''`read_messages`,`send_messages`,'') @ ''`embed_links`'' @ ''.''"
    by (simp add: base_perms_message_def)
  show ?thesis
    by (metis 1 2 3 sublist_appendI)
qed

lemma strict_perms_message_names:
  "sublist ''`add reactions`'' (strict_perms_message ch) \<and>
   sublist ''`use external emojis`'' (strict_perms_message ch) \<and>
   sublist ''`manage channel`'' (strict_perms_message ch) \<and>
   sublist ''`manage permissions`'' (strict_perms_message ch) \<and>
   sublist ''`manage messages`'' (strict_perms_message ch)"
proof -
  let ?head = "''Please make sure I have the following perms in '' @ channel_mention ch @ '':'' @ [CHR 0x0A]"
  have 1: "strict_perms_message ch = (?head @ ''- '') @ ''`add reactions`'' @
      ([CHR 0x0A] @ ''- `use external emojis`'' @ [CHR 0x0A] @ ''- `manage channel`'' @ [CHR 0x0A] @
       ''- `manage permissions`'' @ [CHR 0x0A] @ ''- `manage messages`'')"
    by (simp add: strict_perms_message_def)
  have 2: "strict_perms_message ch = (?head @ ''- `add reactions`'' @ [CHR 0x0A] @ ''- '') @
      ''`use external emojis`'' @
      ([CHR 0x0A] @ ''- `manage channel`'' @ [CHR 0x0A] @
       ''- `manage permissions`'' @ [CHR 0x0A] @ ''- `manage messages`'')"
    by (simp add: strict_perms_message_def)
  have 3: "strict_perms_message ch = (?head @ ''- `add reactions`'' @ [CHR 0x0A] @
       ''- `use external emojis`'' @ [CHR 0x0A] @ ''- '') @ ''`manage channel`'' @
      ([CHR 0x0A] @ ''- `manage permissions`'' @ [CHR 0x0A] @ ''- `manage messages`'')"
    by (simp add: strict_perms_message_def)
  have 4: "strict_perms_message ch = (?head @ ''- `add reactions`'' @ [CHR 0x0A] @
       ''- `use external emojis`'' @ [CHR 0x0A] @ ''- `manage channel`'' @ [CHR 0x0A] @ ''- '') @
      ''`manage permissions`'' @ ([CHR 0x0A] @ ''- `manage messages`'')"
    by (simp add: strict_perms_message_def)
  have 5: "strict_perms_message ch = (?head @ ''- `add reactions`'' @ [CHR 0x0A] @
       ''- `use external emojis`'' @ [CHR 0x0A] @ ''- `manage channel`'' @ [CHR 0x0A] @
       ''- `manage permissions`'' @ [CHR 0x0A] @ ''- '') @ ''`manage messages`''"
    by (simp add: strict_perms_message_def)
  have a: "sublist ''`add reactions`'' (strict_perms_message ch)"
    by (subst 1) (rule sublist_appendI)
  have b: "sublist ''`use external emojis`'' (strict_perms_message ch)"
    by (subst 2) (rule sublist_appendI)
  have c: "sublist ''`manage channel`'' (strict_perms_message ch)"
    by (subst 3) (rule sublist_appendI)
  have d: "sublist ''`manage permissions`'' (strict_perms_message ch)"
    by (subst 4) (rule sublist_appendI)
  have e: "sublist ''`manage messages`'' (strict_perms_message ch)"
    by (subst 5) (rule sublist_append_leftI)
  from a b c d e show ?thesis by blast
qed

text \<open>
  Claim C8, as amended. For a resolved channel: when one of read, send and embed is
  missing the call fails with the base message, strict mode or not; when these three
  are present and one of the five strict permissions is missing, the call fails with the
  strict message in strict mode and returns the channel otherwise. The base message
  names all three base permissions and the strict message all five strict ones, whichever
  of them are missing.
\<close>

theorem C8_channel_capabilities:
  "(wait_for (or_default c check) events = Some m \<and> convert_channel c (content m) = Some ch \<longrightarrow>
      (\<not> (read_messages (permissions_for_me c ch) \<and> send_messages (permissions_for_me c ch) \<and>
          embed_links (permissions_for_me c ch)) \<longrightarrow>
         channel_input c check delete_after strict events w =
           (Inl (InputError (base_perms_message ch)), w)) \<and>
      (read_messages (permissions_for_me c ch) \<and> send_messages (permissions_for_me c ch) \<and>
       embed_links (permissions_for_me c ch) \<and>
       \<not> (manage_channels (permissions_for_me c ch) \<and> add_reactions (permissions_for_me c ch) \<and>
          use_external_emojis (permissions_for_me c ch) \<and>
          manage_permissions (permissions_for_me c ch) \<and>
          manage_messages (permissions_for_me c ch)) \<longrightarrow>
         channel_input c check delete_after True events w =
           (Inl (InputError (strict_perms_message ch)), w) \<and>
         channel_input c check delete_after False events w =
           (Inr ch, delete_if delete_after c m w))) \<and>
   sublist ''`read_messages`'' (base_perms_message ch) \<and>
   sublist ''`send_messages`'' (base_perms_message ch) \<and>
   sublist ''`embed_links`'' (base_perms_message ch) \<and>
   sublist ''`add reactions`'' (strict_perms_message ch) \<and>
   sublist ''`use external emojis`'' (strict_perms_message ch) \<and>
   sublist ''`manage channel`'' (strict_perms_message ch) \<and>
   sublist ''`manage permissions`'' (strict_perms_message ch) \<and>
   sublist ''`manage messages`'' (strict_perms_message ch)"
proof -
  have "wait_for (or_default c check) events = Some m \<and> convert_channel c (content m) = Some ch \<longrightarrow>
      (\<not> (read_messages (permissions_for_me c ch) \<and> send_messages (permissions_for_me c ch) \<and>
          embed_links (permissions_for_me c ch)) \<longrightarrow>
         channel_input c check delete_after strict events w =
           (Inl (InputError (base_perms_message ch)), w)) \<and>
      (read_messages (permissions_for_me c ch) \<and> send_messages (permissions_for_me c ch) \<and>
       embed_links (permissions_for_me c ch) \<and>
       \<not> (manage_channels (permissions_for_me c ch) \<and> add_reactions (permissions_for_me c ch) \<and>
          use_external_emojis (permissions_for_me c ch) \<and>
          manage_permissions (permissions_for_me c ch) \<and>
          manage_messages (permissions_for_me c ch)) \<longrightarrow>
         channel_input c check delete_after True events w =
           (Inl (InputError (strict_perms_message ch)), w) \<and>
         channel_input c check delete_after False events w =
           (Inr ch, delete_if delete_after c m w))"
    by (auto simp: channel_input_def Let_def)
  then show ?thesis
    using base_perms_message_names [of ch] strict_perms_message_names [of ch] by blast
qed

theorem C8_channel_capabilities_witness:
  "wait_for (or_default guild None) [said ''<#7>''] = Some (said ''<#7>'') \<and>
   convert_channel guild (content (said ''<#7>'')) = Some general \<and>
   \<not> send_messages (permissions_for_me guild general) \<and>
   channel_input guild None True False [said ''<#7>''] before =
     (Inl (InputError (base_perms_message general)), before) \<and>
   wait_for (or_default guild None) [said ''<#8>''] = Some (said ''<#8>'') \<and>
   convert_channel guild (content (said ''<#8>'')) = Some lobby \<and>
   read_messages (permissions_for_me guild lobby) \<and>
   send_messages (permissions_for_me guild lobby) \<and>
   embed_links (permissions_for_me guild lobby) \<and>
   \<not> manage_channels (permissions_for_me guild lobby) \<and>
   channel_input guild None True True [said ''<#8>''] before =
     (Inl (InputError (strict_perms_message lobby)), before) \<and>
   channel_input guild None True False [said ''<#8>''] before =
     (Inr lobby, \<lparr>transcript = [99], fetched = []\<rparr>)"
  using C8_channel_capabilities [of guild None "[said ''<#7>'']" "said ''<#7>''" general True False before]
    C8_channel_capabilities [of guild None "[said ''<#8>'']" "said ''<#8>''" lobby True False before]
  by (simp add: wait_for_def or_default_def default_check_def guild_def said_def moderator_def
      general_def lobby_def all_but_send_def base_only_def manage_permissions_def
      delete_if_def safe_delete_def message_delete_def before_def)

text \<open>
  Claim C8 as stated has the message name exactly the missing permissions. For a channel
  where only \<^verbatim>\<open>send_messages\<close> is missing, the message also names \<^verbatim>\<open>read_messages\<close>
  and \<^verbatim>\<open>embed_links\<close>, which the bot has.
\<close>

theorem C8_names_whole_tier_counterexample:
  "channel_input guild None False False [said ''<#7>''] before =
     (Inl (InputError (base_perms_message general)), before) \<and>
   read_messages (permissions_for_me guild general) \<and>
   \<not> send_messages (permissions_for_me guild general) \<and>
   embed_links (permissions_for_me guild general) \<and>
   base_perms_message general =
     ''Please make sure I have the following perms in <#7>:'' @ [CHR 0x0A] @
     ''`read_messages`,`send_messages`,`embed_links`.'' \<and>
   sublist ''`read_messages`'' (base_perms_message general) \<and>
   sublist ''`embed_links`'' (base_perms_message general)"
proof -
  have "channel_input guild None False False [said ''<#7>''] before =
     (Inl (InputError (base_perms_message general)), before)"
    by (simp add: channel_input_def wait_for_def or_default_def default_check_def guild_def
        said_def moderator_def general_def all_but_send_def)
  moreover have "read_messages (permissions_for_me guild general) \<and>
      \<not> send_messages (permissions_for_me guild general) \<and>
      embed_links (permissions_for_me guild general)"
    by (simp add: guild_def general_def all_but_send_def)
  moreover have "base_perms_message general =
     ''Please make sure I have the following perms in <#7>:'' @ [CHR 0x0A] @
     ''`read_messages`,`send_messages`,`embed_links`.''"
    by (simp add: base_perms_message_def general_def)
  ultimately show ?thesis
    using base_perms_message_names [of general] by blast
qed

section \<open>image_input: the literal none\<close>

text \<open>
  Claim C9. When the content of the message that resolves the wait is \<^verbatim>\<open>none\<close> after
  \<^verbatim>\<open>strip\<close> and \<^verbatim>\<open>lower\<close>, \<^verbatim>\<open>image_input\<close> returns \<^verbatim>\<open>None\<close> as its value: it raises
  nothing, it fetches no URL (the list of fetched URLs is unchanged and the result does
  not depend on what a fetch would do), and the attachments play no part.
\<close>

theorem C9_none_literal:
  "wait_for check events = Some m \<and> py_lower (py_strip (content m)) = ''none'' \<longrightarrow>
     image_input c check delete_after events w = (Inr None, delete_if delete_after c m w) \<and>
     fetched (snd (image_input c check delete_after events w)) = fetched w \<and>
     image_input (c\<lparr>session_get := g\<rparr>) check delete_after events w =
       image_input c check delete_after events w"
  by (simp add: image_input_def Let_def fetched_delete_if delete_if_def safe_delete_def
      message_delete_def)

theorem C9_none_literal_witness:
  "wait_for (default_check guild)
     [said '' NoNe ''\<lparr>attachments := [\<lparr>content_type = Some ''image/png'', proxy_url = ''https://cdn/a.png''\<rparr>]\<rparr>] =
     Some (said '' NoNe ''\<lparr>attachments := [\<lparr>content_type = Some ''image/png'', proxy_url = ''https://cdn/a.png''\<rparr>]\<rparr>) \<and>
   py_lower (py_strip (content (said '' NoNe ''\<lparr>attachments := [\<lparr>content_type = Some ''image/png'', proxy_url = ''https://cdn/a.png''\<rparr>]\<rparr>))) = ''none'' \<and>
   image_input guild (default_check guild) True
     [said '' NoNe ''\<lparr>attachments := [\<lparr>content_type = Some ''image/png'', proxy_url = ''https://cdn/a.png''\<rparr>]\<rparr>] before =
     (Inr None, \<lparr>transcript = [99], fetched = []\<rparr>)"
  using C9_none_literal [of "default_check guild"
      "[said '' NoNe ''\<lparr>attachments := [\<lparr>content_type = Some ''image/png'', proxy_url = ''https://cdn/a.png''\<rparr>]\<rparr>]"
      "said '' NoNe ''\<lparr>attachments := [\<lparr>content_type = Some ''image/png'', proxy_url = ''https://cdn/a.png''\<rparr>]\<rparr>"
      guild True before "session_get guild"]
  by (simp add: wait_for_def default_check_def guild_def said_def moderator_def
      py_lower_def py_strip_def py_isspace_def py_lower_char_def char_of_def bit_0
      delete_if_def safe_delete_def message_delete_def before_def)

section \<open>channel_input and role_input: when the message is deleted\<close>

text \<open>
  Claim C10. Whatever the flags, a call of \<^verbatim>\<open>channel_input\<close> or \<^verbatim>\<open>role_input\<close> that
  fails (timeout, unresolvable content, missing channel permission, managed role,
  hierarchy, dangerous permissions) leaves the transcript as it was; a call that returns
  a value has deleted the resolving message exactly as \<^verbatim>\<open>delete_after\<close> asks.
\<close>

theorem C10_delete_after_checks:
  "(fst (channel_input c check delete_after check_perms events w) = Inl e \<longrightarrow>
      snd (channel_input c check delete_after check_perms events w) = w) \<and>
   (fst (channel_input c check delete_after check_perms events w) = Inr ch \<longrightarrow>
      (\<exists>m. wait_for (or_default c check) events = Some m \<and>
         snd (channel_input c check delete_after check_perms events w) = delete_if delete_after c m w)) \<and>
   (fst (role_input c check hierarchy check_perms delete_after events w) = Inl e' \<longrightarrow>
      snd (role_input c check hierarchy check_perms delete_after events w) = w) \<and>
   (fst (role_input c check hierarchy check_perms delete_after events w) = Inr r \<longrightarrow>
      (\<exists>m. wait_for (or_default c check) events = Some m \<and>
         snd (role_input c check hierarchy check_perms delete_after events w) = delete_if delete_after c m w))"
proof (intro conjI impI)
  assume "fst (channel_input c check delete_after check_perms events w) = Inl e"
  then show "snd (channel_input c check delete_after check_perms events w) = w"
    by (auto simp: channel_input_def Let_def split: option.splits if_splits)
next
  assume "fst (channel_input c check delete_after check_perms events w) = Inr ch"
  then show "\<exists>m. wait_for (or_default c check) events = Some m \<and>
         snd (channel_input c check delete_after check_perms events w) = delete_if delete_after c m w"
    by (auto simp: channel_input_def Let_def split: option.splits if_splits)
next
  assume "fst (role_input c check hierarchy check_perms delete_after events w) = Inl e'"
  then show "snd (role_input c check hierarchy check_perms delete_after events w) = w"
    by (auto simp: role_input_def split: option.splits if_splits)
next
  assume "fst (role_input c check hierarchy check_perms delete_after events w) = Inr r"
  then show "\<exists>m. wait_for (or_default c check) events = Some m \<and>
         snd (role_input c check hierarchy check_perms delete_after events w) = delete_if delete_after c m w"
    by (auto simp: role_input_def split: option.splits if_splits)
qed

theorem C10_delete_after_checks_witness:
  "100 \<in> set (transcript before) \<and>
   fst (channel_input guild None True True [said ''<#7>''] before) =
     Inl (InputError (base_perms_message general)) \<and>
   snd (channel_input guild None True True [said ''<#7>''] before) = before \<and>
   fst (channel_input guild None True False [said ''<#8>''] before) = Inr lobby \<and>
   snd (channel_input guild None True False [said ''<#8>''] before) =
     \<lparr>transcript = [99], fetched = []\<rparr> \<and>
   fst (role_input guild None True True True [said ''<@&22>''] before) =
     Inl (InputError (above_my_top_role_message admin_role bot_role)) \<and>
   snd (role_input guild None True True True [said ''<@&22>''] before) = before \<and>
   fst (role_input guild None True True True [said ''<@&21>''] before) = Inr mod_role \<and>
   snd (role_input guild None True True True [said ''<@&21>''] before) =
     \<lparr>transcript = [99], fetched = []\<rparr>"
  using C10_delete_after_checks [of guild None True True "[said ''<#7>'']" before
      "InputError (base_perms_message general)"]
    C10_delete_after_checks [of guild None True False "[said ''<#8>'']" before _ lobby]
    C10_delete_after_checks [of guild None True True "[said ''<@&22>'']" before _ _ True
      "InputError (above_my_top_role_message admin_role bot_role)"]
    C10_delete_after_checks [of guild None True True "[said ''<@&21>'']" before _ _ True _ mod_role]
  by (simp add: channel_input_def role_input_def wait_for_def or_default_def default_check_def
      guild_def said_def moderator_def bot_def general_def lobby_def all_but_send_def
      base_only_def manage_permissions_def admin_role_def mod_role_def bot_role_def
      dangerous_def no_permissions_def delete_if_def safe_delete_def message_delete_def
      before_def)

end
